theory Spec2Isabelle
  imports Main "HOL-Library.AList" "HOL-Library.Countable"
begin

section \<open>Python values and dictionaries\<close>

text \<open>
  The objects that \<^verbatim>\<open>datasets.py\<close> stores in dictionaries, hashes and persists are
  JSON-like Python values. A Python \<^verbatim>\<open>dict\<close> keeps its insertion order, so it is an
  association list with string keys; \<open>map_of\<close> is the lookup.
\<close>

datatype pyval =
    VNone
  | VBool bool
  | VInt int
  | VStr string
  | VList "pyval list"
  | VDict "(string \<times> pyval) list"

type_synonym dict = "(string \<times> pyval) list"

text \<open>Python truthiness, as used by \<^verbatim>\<open>if x:\<close>.\<close>

fun truthy :: "pyval \<Rightarrow> bool" where
  "truthy VNone = False"
| "truthy (VBool b) = b"
| "truthy (VInt i) = (i \<noteq> 0)"
| "truthy (VStr s) = (s \<noteq> [])"
| "truthy (VList xs) = (xs \<noteq> [])"
| "truthy (VDict d) = (d \<noteq> [])"

text \<open>\<^verbatim>\<open>d.get(k, default)\<close>.\<close>

definition dict_get :: "dict \<Rightarrow> string \<Rightarrow> pyval \<Rightarrow> pyval" where
  "dict_get d k dflt = (case map_of d k of None \<Rightarrow> dflt | Some v \<Rightarrow> v)"

text \<open>
  \<^verbatim>\<open>d[k] = v\<close>: an existing key keeps its position, a new key goes to the end.
\<close>

definition dict_set :: "string \<Rightarrow> pyval \<Rightarrow> dict \<Rightarrow> dict" where
  "dict_set k v d = AList.update k v d"

text \<open>\<^verbatim>\<open>{**d, **e}\<close>: the entries of \<open>e\<close> are stored into a copy of \<open>d\<close>, left to right.\<close>

definition dict_merge :: "dict \<Rightarrow> dict \<Rightarrow> dict" where
  "dict_merge d e = fold (\<lambda>(k, v). dict_set k v) e d"

text \<open>\<^verbatim>\<open>d.pop(k, None)\<close>, the value dropped.\<close>

definition dict_pop :: "string \<Rightarrow> dict \<Rightarrow> dict" where
  "dict_pop k d = AList.delete k d"


section \<open>Errors\<close>

text \<open>
  The exceptions that the module raises itself, those of the Python runtime that its
  statements raise, and \<open>Raised\<close> for an exception coming out of an external
  collaborator (the unpacker, the transform, the resolver of a transform reference).
\<close>

datatype error =
    DatasetNameRequired
  | MatchingMetadataExists
  | MetadataChanged
  | FileNotFoundError
  | KeyError string
  | TypeError
  | AttributeError
  | ValueError
  | Raised string

section \<open>External collaborators\<close>

text \<open>
  \<^verbatim>\<open>datasets.py\<close> imports its paths from \<^verbatim>\<open>..paths\<close>, \<^verbatim>\<open>fetch_file\<close>, \<^verbatim>\<open>unpack\<close> and
  \<^verbatim>\<open>get_dataset_filename\<close> from \<^verbatim>\<open>.fetch\<close>, \<^verbatim>\<open>serialize_partial\<close>,
  \<^verbatim>\<open>deserialize_partial\<close>, \<^verbatim>\<open>partial_call_signature\<close> and \<^verbatim>\<open>process_dataset_default\<close>
  from \<^verbatim>\<open>.utils\<close>, and hashes with \<^verbatim>\<open>joblib.hash\<close>. None of them is part of the module;
  they are the fields of an environment that every operation takes as its first argument.
  The type \<open>'f\<close> is that of transform functions (a callable with its bound arguments),
  \<open>'x\<close> is the state the collaborators act on (the network, the raw and interim
  directories).

  \<^item> \<open>fetch_file item\<close> returns \<^verbatim>\<open>(status, result, hash_value)\<close>;
  \<^item> \<open>fetch_unpack filename dst_dir\<close> is \<^verbatim>\<open>unpack\<close> of \<^verbatim>\<open>.fetch\<close>, which may raise;
  \<^item> \<open>joblib_hash hash_name value\<close> is \<^verbatim>\<open>joblib.hash(value, hash_name=hash_name)\<close>;
  \<^item> \<open>call f kwargs\<close> is the invocation \<^verbatim>\<open>f(**kwargs)\<close> of a transform;
  \<^item> \<open>read_text path\<close> is \<^verbatim>\<open>open(path, 'r').read()\<close>;
  \<^item> \<open>func_name\<close> and \<open>func_doc\<close> are \<^verbatim>\<open>func.func.__name__\<close> and \<^verbatim>\<open>func.func.__doc__\<close>.
\<close>

record ('f, 'x) env =
  raw_data_path :: string
  interim_data_path :: string
  processed_data_path :: string
  process_dataset_default :: 'f
  fetch_file :: "dict \<Rightarrow> 'x \<Rightarrow> (bool \<times> pyval \<times> pyval) \<times> 'x"
  fetch_unpack :: "pyval \<Rightarrow> string \<Rightarrow> 'x \<Rightarrow> error option \<times> 'x"
  get_dataset_filename :: "dict \<Rightarrow> string"
  joblib_hash :: "string \<Rightarrow> pyval \<Rightarrow> string"
  serialize_partial :: "'f \<Rightarrow> dict"
  deserialize_partial :: "dict \<Rightarrow> error + 'f"
  partial_call_signature :: "'f \<Rightarrow> string \<times> string"
  func_name :: "'f \<Rightarrow> string"
  func_doc :: "'f \<Rightarrow> string"
  call :: "'f \<Rightarrow> dict \<Rightarrow> 'x \<Rightarrow> (error + dict) \<times> 'x"
  read_text :: "string \<Rightarrow> 'x \<Rightarrow> error + string"

section \<open>RawDataset\<close>

text \<open>
  The attributes that \<^verbatim>\<open>RawDataset.__init__\<close> sets. Paths are strings (\<^verbatim>\<open>str\<close> of a
  path is the path). An entry of \<open>file_list\<close> is one of the \<^verbatim>\<open>file_dict\<close>s of the
  docstring. The fields \<open>fetched\<close>, \<open>fetched_files\<close>, \<open>unpacked\<close> and \<open>unpack_path\<close>
  are the attributes \<^verbatim>\<open>fetched_\<close>, \<^verbatim>\<open>fetched_files_\<close>, \<^verbatim>\<open>unpacked_\<close> and \<^verbatim>\<open>unpack_path_\<close>
  (a name cannot end in an underscore here).
\<close>

record 'f raw_dataset =
  name :: string
  file_list :: "dict list"
  load_function :: 'f
  dataset_dir :: string
  fetched :: bool
  fetched_files :: "pyval list"
  unpacked :: bool
  unpack_path :: "string option"

text \<open>\<^verbatim>\<open>RawDataset.__init__\<close>, with its defaults for arguments that are \<^verbatim>\<open>None\<close>.\<close>

definition RawDataset_init ::
  "('f, 'x) env \<Rightarrow> string \<Rightarrow> 'f option \<Rightarrow> string option \<Rightarrow> dict list option \<Rightarrow> 'f raw_dataset" where
  "RawDataset_init E nm lf dir fl =
     \<lparr> name = nm,
       file_list = (case fl of None \<Rightarrow> [] | Some l \<Rightarrow> l),
       load_function = (case lf of None \<Rightarrow> process_dataset_default E | Some f \<Rightarrow> f),
       dataset_dir = (case dir of None \<Rightarrow> raw_data_path E | Some p \<Rightarrow> p),
       fetched = False,
       fetched_files = [],
       unpacked = False,
       unpack_path = None \<rparr>"

text \<open>
  \<^verbatim>\<open>RawDataset.to_dict\<close>: the dictionary display
  \<^verbatim>\<open>{'url_list': ..., **load_function_dict, 'name': ..., 'dataset_dir': ...}\<close>,
  built left to right.
\<close>

definition to_dict :: "('f, 'x) env \<Rightarrow> 'f raw_dataset \<Rightarrow> dict" where
  "to_dict E D =
     (let load_function_dict = serialize_partial E (load_function D) in
      dict_set ''dataset_dir'' (VStr (dataset_dir D))
        (dict_set ''name'' (VStr (name D))
          (dict_merge [(''url_list'', VList (map VDict (file_list D)))] load_function_dict)))"

text \<open>
  \<^verbatim>\<open>RawDataset.to_hash(ignore, hash_type, **kwargs)\<close>. \<open>hashed_dict\<close> is \<^verbatim>\<open>my_dict\<close> at
  the moment it is hashed.
\<close>

definition hashed_dict :: "('f, 'x) env \<Rightarrow> string list option \<Rightarrow> 'f raw_dataset \<Rightarrow> dict \<Rightarrow> dict" where
  "hashed_dict E ignore D kwargs =
     (let ignore = (case ignore of None \<Rightarrow> [''dataset_dir''] | Some l \<Rightarrow> l);
          my_dict = dict_merge (to_dict E D) kwargs
      in fold dict_pop ignore my_dict)"

definition to_hash ::
  "('f, 'x) env \<Rightarrow> string list option \<Rightarrow> string \<Rightarrow> 'f raw_dataset \<Rightarrow> dict \<Rightarrow> string" where
  "to_hash E ignore hash_type D kwargs = joblib_hash E hash_type (VDict (hashed_dict E ignore D kwargs))"

text \<open>
  \<^verbatim>\<open>RawDataset.from_dict\<close>. The source stores whatever the record holds; a record whose
  \<^verbatim>\<open>name\<close> or \<^verbatim>\<open>dataset_dir\<close> is not a string, or whose \<^verbatim>\<open>url_list\<close> is not a list of
  mappings, is no RawDataset of this model and is answered with \<open>TypeError\<close> once the
  source's own failures (the transform that does not resolve, the missing \<^verbatim>\<open>name\<close>) have
  had their turn.
\<close>

fun as_dicts :: "pyval list \<Rightarrow> dict list option" where
  "as_dicts [] = Some []"
| "as_dicts (VDict d # vs) = (case as_dicts vs of None \<Rightarrow> None | Some ds \<Rightarrow> Some (d # ds))"
| "as_dicts (_ # vs) = None"

definition from_dict :: "('f, 'x) env \<Rightarrow> dict \<Rightarrow> error + 'f raw_dataset" where
  "from_dict E obj_dict =
     (let fl = dict_get obj_dict ''url_list'' (VList []) in
      case deserialize_partial E obj_dict of
        Inl e \<Rightarrow> Inl e
      | Inr lf \<Rightarrow>
         (case map_of obj_dict ''name'' of
            None \<Rightarrow> Inl (KeyError ''name'')
          | Some nm \<Rightarrow>
             (let dir = dict_get obj_dict ''dataset_dir'' VNone in
              case (nm, fl, dir) of
                (VStr n, VList items, VNone) \<Rightarrow>
                  (case as_dicts items of
                     None \<Rightarrow> Inl TypeError
                   | Some l \<Rightarrow> Inr (RawDataset_init E n (Some lf) None (Some l)))
              | (VStr n, VList items, VStr p) \<Rightarrow>
                  (case as_dicts items of
                     None \<Rightarrow> Inl TypeError
                   | Some l \<Rightarrow> Inr (RawDataset_init E n (Some lf) (Some p) (Some l)))
              | _ \<Rightarrow> Inl TypeError)))"

text \<open>A Python dictionary holds each key once.\<close>

definition is_dict :: "dict \<Rightarrow> bool" where
  "is_dict d = distinct (map fst d)"

text \<open>
  A hash function without collisions between dictionaries that differ in some lookup.
  It may still ignore the order of the entries, as \<^verbatim>\<open>joblib.hash\<close> does.
\<close>

definition collision_free :: "(string \<Rightarrow> pyval \<Rightarrow> string) \<Rightarrow> bool" where
  "collision_free h = (\<forall>t a b. h t (VDict a) = h t (VDict b) \<longrightarrow> map_of a = map_of b)"

section \<open>The fetch and unpack stages\<close>

text \<open>The condition \<^verbatim>\<open>item.get('url', False)\<close>.\<close>

definition has_url :: "dict \<Rightarrow> bool" where
  "has_url item = truthy (dict_get item ''url'' (VBool False))"

text \<open>
  The \<^verbatim>\<open>for\<close> loop of \<^verbatim>\<open>fetch\<close> over the rest of the file list. It returns the file list
  with the hash values it has stored, the results it has appended to \<^verbatim>\<open>fetched_files_\<close>,
  whether it ran to its \<^verbatim>\<open>else\<close> clause (no \<^verbatim>\<open>break\<close>), and the collaborators' state.
\<close>

fun fetch_loop ::
  "(dict \<Rightarrow> 'x \<Rightarrow> (bool \<times> pyval \<times> pyval) \<times> 'x) \<Rightarrow> dict list \<Rightarrow> 'x \<Rightarrow>
   dict list \<times> pyval list \<times> bool \<times> 'x" where
  "fetch_loop ff [] x = ([], [], True, x)"
| "fetch_loop ff (item # rest) x =
     (case ff item x of
        ((status, result, hash_value), x1) \<Rightarrow>
          if status then
            (case fetch_loop ff rest x1 of
               (items, files, completed, x2) \<Rightarrow>
                 (dict_set ''hash_value'' hash_value item # items, result # files, completed, x2))
          else if has_url item then (item # rest, [], False, x1)
          else
            (case fetch_loop ff rest x1 of
               (items, files, completed, x2) \<Rightarrow> (item # items, files, completed, x2)))"

text \<open>
  \<^verbatim>\<open>RawDataset.fetch(fetch_path, force)\<close>: the value returned, the RawDataset and the
  collaborators' state afterwards. The bare \<^verbatim>\<open>return\<close> of the first branch returns
  \<^verbatim>\<open>None\<close>. \<^verbatim>\<open>fetch_path\<close> is computed and not used, as in the source.
\<close>

definition fetch ::
  "('f, 'x) env \<Rightarrow> string option \<Rightarrow> bool \<Rightarrow> 'f raw_dataset \<Rightarrow> 'x \<Rightarrow>
   pyval \<times> 'f raw_dataset \<times> 'x" where
  "fetch E fetch_path force D x =
     (if fetched D \<and> \<not> force then (VNone, D, x)
      else
        (let fetch_path = (case fetch_path of None \<Rightarrow> dataset_dir D | Some p \<Rightarrow> p) in
         case fetch_loop (fetch_file E) (file_list D) x of
           (items, files, completed, x') \<Rightarrow>
             (VBool completed,
              D\<lparr>file_list := items, fetched := completed, fetched_files := files\<rparr>,
              x')))"

text \<open>\<^verbatim>\<open>dir / n\<close> on paths, for a relative \<open>n\<close>.\<close>

definition path_join :: "string \<Rightarrow> string \<Rightarrow> string" where
  "path_join dir n = dir @ ''/'' @ n"

text \<open>
  The loop of \<^verbatim>\<open>unpack\<close> over \<^verbatim>\<open>fetched_files_\<close>; an exception of the unpacker ends it
  and propagates.
\<close>

fun unpack_loop ::
  "(pyval \<Rightarrow> string \<Rightarrow> 'x \<Rightarrow> error option \<times> 'x) \<Rightarrow> pyval list \<Rightarrow> string \<Rightarrow> 'x \<Rightarrow>
   error option \<times> 'x" where
  "unpack_loop u [] dst_dir x = (None, x)"
| "unpack_loop u (filename # rest) dst_dir x =
     (case u filename dst_dir x of
        (Some e, x1) \<Rightarrow> (Some e, x1)
      | (None, x1) \<Rightarrow> unpack_loop u rest dst_dir x1)"

text \<open>
  \<^verbatim>\<open>RawDataset.unpack(unpack_path, force)\<close>. The value of the implicit \<^verbatim>\<open>self.fetch()\<close>
  is dropped.
\<close>

definition unpack ::
  "('f, 'x) env \<Rightarrow> string option \<Rightarrow> bool \<Rightarrow> 'f raw_dataset \<Rightarrow> 'x \<Rightarrow>
   (error + string option) \<times> 'f raw_dataset \<times> 'x" where
  "unpack E upath force D x =
     (case (if \<not> fetched D then snd (fetch E None False D x) else (D, x)) of
        (D1, x1) \<Rightarrow>
          if unpacked D1 \<and> \<not> force then (Inr (unpack_path D1), D1, x1)
          else
            (let dst = (case upath of None \<Rightarrow> path_join (interim_data_path E) (name D1)
                                    | Some p \<Rightarrow> p) in
             case unpack_loop (fetch_unpack E) (fetched_files D1) dst x1 of
               (Some e, x2) \<Rightarrow> (Inl e, D1, x2)
             | (None, x2) \<Rightarrow>
                 (Inr (Some dst), D1\<lparr>unpacked := True, unpack_path := Some dst\<rparr>, x2)))"

section \<open>Dataset\<close>




























section \<open>A concrete environment\<close>

text \<open>
  Modelled from the spec: \<^verbatim>\<open>serialize_partial\<close> and \<^verbatim>\<open>deserialize_partial\<close> of
  \<^verbatim>\<open>.utils\<close>, which the module imports and which are not at hand. A transform
  reference is \<^verbatim>\<open>{function_id, bound_args, bound_kwargs}\<close>; serializing a callable
  produces these three entries; deserializing looks \<^verbatim>\<open>function_id\<close> up in a registry
  of known transforms and rebuilds the callable with the bound arguments, and an
  identifier that is absent from the registry is a fatal resolution error.
\<close>

record transform_ref =
  function_id :: string
  bound_args :: "pyval list"
  bound_kwargs :: dict

definition serialize_transform :: "transform_ref \<Rightarrow> dict" where
  "serialize_transform f =
     [(''function_id'', VStr (function_id f)),
      (''bound_args'', VList (bound_args f)),
      (''bound_kwargs'', VDict (bound_kwargs f))]"

definition deserialize_transform :: "string list \<Rightarrow> dict \<Rightarrow> error + transform_ref" where
  "deserialize_transform registry d =
     (case (map_of d ''function_id'', map_of d ''bound_args'', map_of d ''bound_kwargs'') of
        (Some (VStr i), Some (VList a), Some (VDict k)) \<Rightarrow>
          (if i \<in> set registry
           then Inr \<lparr> function_id = i, bound_args = a, bound_kwargs = k \<rparr>
           else Inl (Raised ''unresolved transform''))
      | _ \<Rightarrow> Inl (Raised ''unresolved transform''))"

text \<open>
  A stand-in for \<^verbatim>\<open>joblib.hash\<close> that has no collisions at all: the values are
  countable, and the digest of a value is its number written in unary.
\<close>

instance pyval :: countable
  by countable_datatype

definition tally_hash :: "string \<Rightarrow> pyval \<Rightarrow> string" where
  "tally_hash hash_name v = replicate (to_nat v) CHR ''1''"

text \<open>
  A fetcher that finds two files, an unpacker that accepts file names, and a transform
  that returns the payloads of the end-to-end scenario. Their state is the log of what
  they were asked to do.
\<close>

definition toy_fetch_file :: "dict \<Rightarrow> string list \<Rightarrow> (bool \<times> pyval \<times> pyval) \<times> string list" where
  "toy_fetch_file item log =
     (case map_of item ''file_name'' of
        Some (VStr n) \<Rightarrow>
          (if n \<in> set [''a.csv'', ''b.csv'']
           then ((True, VStr n, VStr (''sha1 of '' @ n)), log @ [n])
           else ((False, VStr ''not found'', VNone), log @ [n]))
      | _ \<Rightarrow> ((False, VStr ''no file name'', VNone), log))"

definition toy_unpack :: "pyval \<Rightarrow> string \<Rightarrow> string list \<Rightarrow> error option \<times> string list" where
  "toy_unpack filename dst_dir log =
     (case filename of
        VStr n \<Rightarrow> (None, log @ [dst_dir @ ''/'' @ n])
      | _ \<Rightarrow> (Some (Raised ''not a file name''), log))"

definition toy_transform :: "transform_ref \<Rightarrow> dict \<Rightarrow> string list \<Rightarrow> (error + dict) \<times> string list" where
  "toy_transform f kwargs log =
     (Inr [(''data'', VList [VInt 1, VInt 2, VInt 3]),
           (''target'', VList [VInt 0, VInt 1, VInt 0]),
           (''metadata'', dict_get kwargs ''metadata'' VNone)], log)"

definition toy_env :: "(transform_ref, string list) env" where
  "toy_env =
     \<lparr> raw_data_path = ''raw'',
       interim_data_path = ''interim'',
       processed_data_path = ''processed'',
       process_dataset_default =
         \<lparr> function_id = ''process_dataset_default'', bound_args = [], bound_kwargs = [] \<rparr>,
       fetch_file = toy_fetch_file,
       fetch_unpack = toy_unpack,
       get_dataset_filename =
         (\<lambda>item. case map_of item ''file_name'' of Some (VStr n) \<Rightarrow> n | _ \<Rightarrow> []),
       joblib_hash = tally_hash,
       serialize_partial = serialize_transform,
       deserialize_partial = deserialize_transform [''process_dataset_default'', ''load_toy''],
       partial_call_signature = (\<lambda>f. (function_id f, function_id f @ ''()'')),
       func_name = function_id,
       func_doc = (\<lambda>f. ''None''),
       call = toy_transform,
       read_text = (\<lambda>path log. Inl FileNotFoundError) \<rparr>"

text \<open>The RawDataset \<^verbatim>\<open>toy\<close>: one local file with a known sha1 hash.\<close>

definition toy :: "transform_ref raw_dataset" where
  "toy = RawDataset_init toy_env ''toy''
           (Some \<lparr> function_id = ''load_toy'', bound_args = [],
                   bound_kwargs = [(''scale'', VInt 2)] \<rparr>)
           None
           (Some [[(''hash_type'', VStr ''sha1''), (''hash_value'', VStr ''abc''),
                   (''name'', VNone), (''file_name'', VStr ''a.csv'')]])"

text \<open>
  File descriptors: a local file that is there, a local file that is missing, a remote
  file that cannot be fetched, and a remote file that can.
\<close>

definition local_a :: dict where
  "local_a = [(''hash_type'', VStr ''sha1''), (''hash_value'', VStr ''abc''),
              (''name'', VNone), (''file_name'', VStr ''a.csv'')]"

definition local_missing :: dict where
  "local_missing = [(''hash_type'', VStr ''sha1''), (''hash_value'', VNone),
                    (''name'', VNone), (''file_name'', VStr ''x.csv'')]"

definition remote_missing :: dict where
  "remote_missing = [(''url'', VStr ''http://example.org/c.csv''), (''hash_type'', VStr ''sha1''),
                     (''hash_value'', VNone), (''name'', VNone), (''file_name'', VStr ''c.csv'')]"

definition remote_b :: dict where
  "remote_b = [(''url'', VStr ''http://example.org/b.csv''), (''hash_type'', VStr ''sha1''),
               (''hash_value'', VNone), (''name'', VNone), (''file_name'', VStr ''b.csv'')]"

text \<open>An unpacker that finds the archive \<^verbatim>\<open>b.csv\<close> malformed and raises.\<close>

definition toy_unpack_malformed ::
  "pyval \<Rightarrow> string \<Rightarrow> string list \<Rightarrow> error option \<times> string list" where
  "toy_unpack_malformed filename dst_dir log =
     (if filename = VStr ''b.csv'' then (Some (Raised ''malformed archive''), log)
      else toy_unpack filename dst_dir log)"







section \<open>Facts about dictionaries\<close>

lemma dict_pop_set_same: "dict_pop k (dict_set k v d) = dict_pop k d"
  by (simp add: dict_pop_def dict_set_def delete_update_same)

lemma dict_pop_set_other: "k \<noteq> l \<Longrightarrow> dict_pop l (dict_set k v d) = dict_set k v (dict_pop l d)"
  by (simp add: dict_pop_def dict_set_def delete_update)

lemma dict_merge_Nil: "dict_merge d [] = d"
  by (simp add: dict_merge_def)

lemma dict_merge_Cons: "dict_merge d ((k, v) # e) = dict_merge (dict_set k v d) e"
  by (simp add: dict_merge_def)

lemma dict_pop_merge:
  "dict_pop k (dict_merge d e) = dict_merge (dict_pop k d) (filter (\<lambda>(l, v). l \<noteq> k) e)"
proof (induction e arbitrary: d)
  case Nil
  show ?case by (simp add: dict_merge_Nil)
next
  case (Cons p e)
  obtain l v where p: "p = (l, v)" by (cases p)
  show ?case
  proof (cases "l = k")
    case True
    then show ?thesis
      using Cons.IH [of "dict_set l v d"] by (simp add: p dict_merge_Cons dict_pop_set_same)
  next
    case False
    then show ?thesis
      using Cons.IH [of "dict_set l v d"]
      by (simp add: p dict_merge_Cons dict_pop_set_other)
  qed
qed

lemma map_of_dict_set: "map_of (dict_set k v d) l = (if l = k then Some v else map_of d l)"
  by (simp add: dict_set_def update_conv')

lemma map_of_dict_pop: "map_of (dict_pop k d) l = (if l = k then None else map_of d l)"
  by (simp add: dict_pop_def delete_conv')

lemma map_of_dict_merge:
  "is_dict e \<Longrightarrow>
   map_of (dict_merge d e) k = (case map_of e k of None \<Rightarrow> map_of d k | Some v \<Rightarrow> Some v)"
  unfolding is_dict_def
proof (induction e arbitrary: d)
  case Nil
  then show ?case by (simp add: dict_merge_Nil)
next
  case (Cons p e)
  obtain l v where p: "p = (l, v)" by (cases p)
  from Cons.prems have d: "distinct (map fst e)" and l: "map_of e l = None"
    by (auto simp: p map_of_eq_None_iff)
  show ?case
  proof (cases "k = l")
    case True
    then show ?thesis
      using Cons.IH [OF d, of "dict_set l v d"] l by (simp add: p dict_merge_Cons map_of_dict_set)
  next
    case False
    then show ?thesis
      using Cons.IH [OF d, of "dict_set l v d"]
      by (simp add: p dict_merge_Cons map_of_dict_set split: option.splits)
  qed
qed

lemma map_of_dict_merge_notin: "k \<notin> fst ` set e \<Longrightarrow> map_of (dict_merge d e) k = map_of d k"
  by (induction e arbitrary: d) (auto simp: dict_merge_Nil dict_merge_Cons map_of_dict_set)

lemma as_dicts_map_VDict: "as_dicts (map VDict fl) = Some fl"
  by (induction fl) auto

lemma map_of_to_dict_url_list:
  "''url_list'' \<notin> fst ` set (serialize_partial E (load_function D)) \<Longrightarrow>
   map_of (to_dict E D) ''url_list'' = Some (VList (map VDict (file_list D)))"
  by (simp add: to_dict_def Let_def map_of_dict_set map_of_dict_merge_notin)

lemma map_of_to_dict_name: "map_of (to_dict E D) ''name'' = Some (VStr (name D))"
  by (simp add: to_dict_def Let_def map_of_dict_set)

lemma map_of_to_dict_dataset_dir: "map_of (to_dict E D) ''dataset_dir'' = Some (VStr (dataset_dir D))"
  by (simp add: to_dict_def Let_def map_of_dict_set)

lemma from_dict_to_dict:
  assumes "deserialize_partial E (to_dict E D) = Inr f"
    and "''url_list'' \<notin> fst ` set (serialize_partial E (load_function D))"
  shows "from_dict E (to_dict E D) =
         Inr (RawDataset_init E (name D) (Some f) (Some (dataset_dir D)) (Some (file_list D)))"
  using assms
  by (simp add: from_dict_def dict_get_def map_of_to_dict_url_list map_of_to_dict_name
      map_of_to_dict_dataset_dir as_dicts_map_VDict)

subsection \<open>Facts about the concrete environment\<close>

lemma collision_free_tally_hash: "collision_free tally_hash"
  by (simp add: collision_free_def tally_hash_def)

lemma toy_simps:
  "name toy = ''toy''"
  "file_list toy = [[(''hash_type'', VStr ''sha1''), (''hash_value'', VStr ''abc''),
                     (''name'', VNone), (''file_name'', VStr ''a.csv'')]]"
  "load_function toy =
     \<lparr> function_id = ''load_toy'', bound_args = [], bound_kwargs = [(''scale'', VInt 2)] \<rparr>"
  "dataset_dir toy = ''raw''"
  "fetched toy = False"
  "fetched_files toy = []"
  "unpacked toy = False"
  "unpack_path toy = None"
  by (simp_all add: toy_def RawDataset_init_def toy_env_def)

lemma toy_env_simps:
  "serialize_partial toy_env = serialize_transform"
  "deserialize_partial toy_env = deserialize_transform [''process_dataset_default'', ''load_toy'']"
  "joblib_hash toy_env = tally_hash"
  "fetch_file toy_env = toy_fetch_file"
  "fetch_unpack toy_env = toy_unpack"
  "call toy_env = toy_transform"
  "interim_data_path toy_env = ''interim''"
  "raw_data_path toy_env = ''raw''"
  "processed_data_path toy_env = ''processed''"
  by (simp_all add: toy_env_def)

section \<open>The fingerprint and the working directory\<close>

text \<open>
  C4. With the default \<^verbatim>\<open>ignore\<close>, the key that \<^verbatim>\<open>to_hash\<close> computes does not depend on
  \<^verbatim>\<open>dataset_dir\<close> nor on the transient attributes \<^verbatim>\<open>fetched_\<close>, \<^verbatim>\<open>fetched_files_\<close>,
  \<^verbatim>\<open>unpacked_\<close> and \<^verbatim>\<open>unpack_path_\<close>: replacing all five in a RawDataset leaves the key
  for the same extra arguments unchanged.
\<close>

theorem to_hash_ignores_dataset_dir:
  "to_hash E None hash_type
     (D\<lparr>dataset_dir := dir, fetched := f, fetched_files := ff, unpacked := u, unpack_path := up\<rparr>)
     kwargs
   = to_hash E None hash_type D kwargs"
  by (simp add: to_hash_def hashed_dict_def to_dict_def Let_def dict_pop_merge dict_pop_set_same)

section \<open>The fingerprint of a reconstructed RawDataset\<close>

text \<open>
  C1. \<^verbatim>\<open>to_hash\<close> reads the RawDataset and assigns nothing, so it is a function of the
  RawDataset and the arguments: two calls give the same key. A RawDataset rebuilt by
  \<^verbatim>\<open>from_dict(to_dict(D))\<close> gives the same key as \<open>D\<close> for the same arguments, for
  every \<^verbatim>\<open>ignore\<close> list and hash type, whenever the transform reference resolves again
  (\<^verbatim>\<open>deserialize_partial\<close> returns a transform that serializes as the one of \<open>D\<close> does)
  and the serialized transform has no entry \<^verbatim>\<open>url_list\<close>.
\<close>

theorem to_hash_from_dict_to_dict:
  assumes "deserialize_partial E (to_dict E D) = Inr f"
    and "serialize_partial E f = serialize_partial E (load_function D)"
    and "''url_list'' \<notin> fst ` set (serialize_partial E (load_function D))"
  shows "\<exists>D'. from_dict E (to_dict E D) = Inr D' \<and>
              to_hash E ignore hash_type D' kwargs = to_hash E ignore hash_type D kwargs"
proof -
  let ?D' = "RawDataset_init E (name D) (Some f) (Some (dataset_dir D)) (Some (file_list D))"
  have "from_dict E (to_dict E D) = Inr ?D'"
    using assms(1,3) by (rule from_dict_to_dict)
  moreover have "to_dict E ?D' = to_dict E D"
    using assms(2) by (simp add: to_dict_def RawDataset_init_def)
  then have "to_hash E ignore hash_type ?D' kwargs = to_hash E ignore hash_type D kwargs"
    by (simp add: to_hash_def hashed_dict_def)
  ultimately show ?thesis by blast
qed

theorem to_hash_from_dict_to_dict_witness:
  "deserialize_partial toy_env (to_dict toy_env toy) = Inr (load_function toy) \<and>
   ''url_list'' \<notin> fst ` set (serialize_partial toy_env (load_function toy)) \<and>
   (\<exists>D'. from_dict toy_env (to_dict toy_env toy) = Inr D' \<and>
         to_hash toy_env None ''sha1'' D' [(''scale'', VInt 3)] =
         to_hash toy_env None ''sha1'' toy [(''scale'', VInt 3)])"
proof -
  have 1: "deserialize_partial toy_env (to_dict toy_env toy) = Inr (load_function toy)"
    by (simp add: to_dict_def toy_simps toy_env_simps serialize_transform_def dict_merge_def
        dict_set_def deserialize_transform_def)
  have 2: "serialize_partial toy_env (load_function toy) =
           serialize_partial toy_env (load_function toy)"
    by simp
  have 3: "''url_list'' \<notin> fst ` set (serialize_partial toy_env (load_function toy))"
    by (simp add: toy_simps toy_env_simps serialize_transform_def)
  show ?thesis
    using 1 3 to_hash_from_dict_to_dict [OF 1 2 3] by simp
qed

section \<open>What the fingerprint is sensitive to\<close>

lemma hashed_dict_default:
  "hashed_dict E None D kwargs = dict_pop ''dataset_dir'' (dict_merge (to_dict E D) kwargs)"
  by (simp add: hashed_dict_def)

lemma to_hash_neq:
  assumes "collision_free (joblib_hash E)"
    and "map_of (hashed_dict E ig D A) k \<noteq> map_of (hashed_dict E ig' D' A') k"
  shows "to_hash E ig ht D A \<noteq> to_hash E ig' ht D' A'"
proof
  assume "to_hash E ig ht D A = to_hash E ig' ht D' A'"
  then have "map_of (hashed_dict E ig D A) = map_of (hashed_dict E ig' D' A')"
    using assms(1) unfolding collision_free_def to_hash_def by blast
  with assms(2) show False by simp
qed

lemma map_of_hashed_dict_own:
  "k \<noteq> ''dataset_dir'' \<Longrightarrow> k \<notin> fst ` set A \<Longrightarrow>
   map_of (hashed_dict E None D A) k = map_of (to_dict E D) k"
  by (simp add: hashed_dict_default map_of_dict_pop map_of_dict_merge_notin)

lemma map_of_hashed_dict_extra:
  "k \<noteq> ''dataset_dir'' \<Longrightarrow> is_dict A \<Longrightarrow> map_of A k = Some v \<Longrightarrow>
   map_of (hashed_dict E None D A) k = Some v"
  by (simp add: hashed_dict_default map_of_dict_pop map_of_dict_merge)

lemma map_of_to_dict_transform:
  "k \<noteq> ''dataset_dir'' \<Longrightarrow> k \<noteq> ''name'' \<Longrightarrow> k \<noteq> ''url_list'' \<Longrightarrow>
   is_dict (serialize_partial E (load_function D)) \<Longrightarrow>
   map_of (to_dict E D) k = map_of (serialize_partial E (load_function D)) k"
  by (simp add: to_dict_def Let_def map_of_dict_set map_of_dict_merge split: option.splits)

text \<open>
  C3, as the code has it. \<^verbatim>\<open>to_hash\<close> hashes \<^verbatim>\<open>{**self.to_dict(), **kwargs}\<close> without the
  ignored keys. So an extra argument overrides the RawDataset's own entry of the same
  name, and an extra argument called \<^verbatim>\<open>dataset_dir\<close> is popped with the default
  \<^verbatim>\<open>ignore\<close>. For a hash function without collisions and the default \<^verbatim>\<open>ignore\<close>:
  \<^item> storing another hash value into a file of the file list changes the key, when
    neither the serialized transform nor the extra arguments have an entry \<^verbatim>\<open>url_list\<close>;
  \<^item> a transform whose serialized form differs in an entry \<open>k\<close> (its identity, its
    bound arguments) changes the key, when \<open>k\<close> is none of \<^verbatim>\<open>url_list\<close>, \<^verbatim>\<open>name\<close>,
    \<^verbatim>\<open>dataset_dir\<close> and no extra argument is called \<open>k\<close>;
  \<^item> another dataset name changes the key, when no extra argument is called \<^verbatim>\<open>name\<close>;
  \<^item> another value for an extra argument changes the key, unless the argument is
    \<^verbatim>\<open>dataset_dir\<close>.
\<close>

theorem to_hash_sensitivity:
  assumes cf: "collision_free (joblib_hash E)"
  shows "(i < length (file_list D) \<and> map_of (file_list D ! i) ''hash_value'' \<noteq> Some v \<and>
          ''url_list'' \<notin> fst ` set (serialize_partial E (load_function D)) \<and>
          ''url_list'' \<notin> fst ` set A \<longrightarrow>
          to_hash E None ht
            (D\<lparr>file_list := (file_list D)[i := dict_set ''hash_value'' v (file_list D ! i)]\<rparr>) A
          \<noteq> to_hash E None ht D A)
       \<and> (is_dict (serialize_partial E f) \<and> is_dict (serialize_partial E (load_function D)) \<and>
          map_of (serialize_partial E f) k \<noteq> map_of (serialize_partial E (load_function D)) k \<and>
          k \<notin> {''url_list'', ''name'', ''dataset_dir''} \<and> k \<notin> fst ` set A \<longrightarrow>
          to_hash E None ht (D\<lparr>load_function := f\<rparr>) A \<noteq> to_hash E None ht D A)
       \<and> (n \<noteq> name D \<and> ''name'' \<notin> fst ` set A \<longrightarrow>
          to_hash E None ht (D\<lparr>name := n\<rparr>) A \<noteq> to_hash E None ht D A)
       \<and> (is_dict A \<and> is_dict A' \<and> map_of A a = Some x \<and> map_of A' a = Some x' \<and> x \<noteq> x' \<and>
          a \<noteq> ''dataset_dir'' \<longrightarrow>
          to_hash E None ht D A' \<noteq> to_hash E None ht D A)"
proof (intro conjI impI)
  assume h: "i < length (file_list D) \<and> map_of (file_list D ! i) ''hash_value'' \<noteq> Some v \<and>
          ''url_list'' \<notin> fst ` set (serialize_partial E (load_function D)) \<and>
          ''url_list'' \<notin> fst ` set A"
  let ?D' = "D\<lparr>file_list := (file_list D)[i := dict_set ''hash_value'' v (file_list D ! i)]\<rparr>"
  have "dict_set ''hash_value'' v (file_list D ! i) \<noteq> file_list D ! i"
  proof
    assume "dict_set ''hash_value'' v (file_list D ! i) = file_list D ! i"
    then have "map_of (dict_set ''hash_value'' v (file_list D ! i)) ''hash_value''
             = map_of (file_list D ! i) ''hash_value''" by simp
    with h show False by (simp add: map_of_dict_set)
  qed
  with h have "(file_list D)[i := dict_set ''hash_value'' v (file_list D ! i)] ! i \<noteq> file_list D ! i"
    by simp
  then have "(file_list D)[i := dict_set ''hash_value'' v (file_list D ! i)] \<noteq> file_list D"
    by auto
  then have ne: "file_list ?D' \<noteq> file_list D"
    by simp
  have "map VDict (file_list ?D') \<noteq> map VDict (file_list D)"
    using ne by (simp add: inj_map_eq_map inj_on_def)
  then have "map_of (to_dict E ?D') ''url_list'' \<noteq> map_of (to_dict E D) ''url_list''"
    using h by (simp add: map_of_to_dict_url_list)
  then have "map_of (hashed_dict E None ?D' A) ''url_list'' \<noteq> map_of (hashed_dict E None D A) ''url_list''"
    using h by (simp add: map_of_hashed_dict_own)
  then show "to_hash E None ht ?D' A \<noteq> to_hash E None ht D A"
    by (rule to_hash_neq [OF cf])
next
  assume h: "is_dict (serialize_partial E f) \<and> is_dict (serialize_partial E (load_function D)) \<and>
          map_of (serialize_partial E f) k \<noteq> map_of (serialize_partial E (load_function D)) k \<and>
          k \<notin> {''url_list'', ''name'', ''dataset_dir''} \<and> k \<notin> fst ` set A"
  then have "map_of (to_dict E (D\<lparr>load_function := f\<rparr>)) k \<noteq> map_of (to_dict E D) k"
    by (simp add: map_of_to_dict_transform)
  then have "map_of (hashed_dict E None (D\<lparr>load_function := f\<rparr>) A) k \<noteq> map_of (hashed_dict E None D A) k"
    using h by (simp add: map_of_hashed_dict_own)
  then show "to_hash E None ht (D\<lparr>load_function := f\<rparr>) A \<noteq> to_hash E None ht D A"
    by (rule to_hash_neq [OF cf])
next
  assume h: "n \<noteq> name D \<and> ''name'' \<notin> fst ` set A"
  then have "map_of (hashed_dict E None (D\<lparr>name := n\<rparr>) A) ''name'' \<noteq> map_of (hashed_dict E None D A) ''name''"
    by (simp add: map_of_hashed_dict_own map_of_to_dict_name)
  then show "to_hash E None ht (D\<lparr>name := n\<rparr>) A \<noteq> to_hash E None ht D A"
    by (rule to_hash_neq [OF cf])
next
  assume h: "is_dict A \<and> is_dict A' \<and> map_of A a = Some x \<and> map_of A' a = Some x' \<and> x \<noteq> x' \<and>
          a \<noteq> ''dataset_dir''"
  then have "map_of (hashed_dict E None D A') a \<noteq> map_of (hashed_dict E None D A) a"
    by (auto simp: map_of_hashed_dict_extra)
  then show "to_hash E None ht D A' \<noteq> to_hash E None ht D A"
    by (rule to_hash_neq [OF cf])
qed

theorem to_hash_sensitivity_witness:
  "collision_free (joblib_hash toy_env) \<and>
   to_hash toy_env None ''sha1''
     (toy\<lparr>file_list := (file_list toy)[0 := dict_set ''hash_value'' (VStr ''abd'') (file_list toy ! 0)]\<rparr>)
     [(''scale'', VInt 3)]
   \<noteq> to_hash toy_env None ''sha1'' toy [(''scale'', VInt 3)] \<and>
   to_hash toy_env None ''sha1''
     (toy\<lparr>load_function := \<lparr> function_id = ''load_toy'', bound_args = [],
                                bound_kwargs = [(''scale'', VInt 5)] \<rparr>\<rparr>)
     [(''scale'', VInt 3)]
   \<noteq> to_hash toy_env None ''sha1'' toy [(''scale'', VInt 3)] \<and>
   to_hash toy_env None ''sha1'' (toy\<lparr>name := ''toy2''\<rparr>) [(''scale'', VInt 3)]
   \<noteq> to_hash toy_env None ''sha1'' toy [(''scale'', VInt 3)] \<and>
   to_hash toy_env None ''sha1'' toy [(''scale'', VInt 4)]
   \<noteq> to_hash toy_env None ''sha1'' toy [(''scale'', VInt 3)]"
proof -
  have cf: "collision_free (joblib_hash toy_env)"
    by (simp add: toy_env_simps collision_free_tally_hash)
  note th = to_hash_sensitivity [OF cf, where D = toy and ht = "''sha1''" and i = 0
      and v = "VStr ''abd''" and A = "[(''scale'', VInt 3)]"
      and f = "\<lparr> function_id = ''load_toy'', bound_args = [], bound_kwargs = [(''scale'', VInt 5)] \<rparr>"
      and k = "''bound_kwargs''" and n = "''toy2''" and A' = "[(''scale'', VInt 4)]"
      and a = "''scale''" and x = "VInt 3" and x' = "VInt 4"]
  show ?thesis
    using cf th
    by (simp add: toy_simps toy_env_simps serialize_transform_def is_dict_def)
qed

text \<open>
  The claim as stated fails for the extra argument \<^verbatim>\<open>dataset_dir\<close>: two different
  values give the same key, even under a hash function that never collides.
\<close>

theorem to_hash_sensitivity_counterexample:
  "[(''dataset_dir'', VStr ''elsewhere'')] \<noteq> [(''dataset_dir'', VStr ''here'')] \<and>
   to_hash toy_env None ''sha1'' toy [(''dataset_dir'', VStr ''elsewhere'')] =
   to_hash toy_env None ''sha1'' toy [(''dataset_dir'', VStr ''here'')]"
  by (simp add: to_hash_def hashed_dict_def dict_pop_merge)

section \<open>The fetch loop\<close>

lemma fetch_loop_append:
  "fetch_loop ff (xs @ ys) x =
     (case fetch_loop ff xs x of
        (xs', fs, ok, x1) \<Rightarrow>
          if ok then (case fetch_loop ff ys x1 of
                        (ys', fs', ok', x2) \<Rightarrow> (xs' @ ys', fs @ fs', ok', x2))
          else (xs' @ ys, fs, False, x1))"
  by (induction xs arbitrary: x) (auto split: prod.splits)

lemma fetch_loop_abort:
  assumes "fetch_loop ff pre x = (pre', files, True, x1)"
    and "ff item x1 = ((False, r, h), x2)" and "has_url item"
  shows "fetch_loop ff (pre @ item # post) x = (pre' @ item # post, files, False, x2)"
  using assms by (simp add: fetch_loop_append)

lemma fetch_loop_local_failure:
  assumes "fetch_loop ff pre x = (pre', files, True, x1)"
    and "ff item x1 = ((False, r, h), x2)" and "\<not> has_url item"
    and "fetch_loop ff post x2 = (post', files', ok, x3)"
  shows "fetch_loop ff (pre @ item # post) x = (pre' @ item # post', files @ files', ok, x3)"
  using assms by (simp add: fetch_loop_append)

lemma fetch_loop_incomplete:
  "fetch_loop ff items x = (items', files, False, x') \<Longrightarrow>
   \<exists>pre item post pre' files1 x1 r h x2.
     items = pre @ item # post \<and> fetch_loop ff pre x = (pre', files1, True, x1) \<and>
     ff item x1 = ((False, r, h), x2) \<and> has_url item"
proof (induction items arbitrary: x items' files x')
  case Nil
  then show ?case by simp
next
  case (Cons item rest)
  obtain status r h x1 where ff: "ff item x = ((status, r, h), x1)"
    by (metis prod.exhaust)
  obtain rest' fs ok x2 where rec: "fetch_loop ff rest x1 = (rest', fs, ok, x2)"
    by (metis prod.exhaust)
  show ?case
  proof (cases "\<not> status \<and> has_url item")
    case True
    then have "item # rest = [] @ item # rest \<and> fetch_loop ff [] x = ([], [], True, x) \<and>
               ff item x = ((False, r, h), x1) \<and> has_url item"
      using ff by simp
    then show ?thesis by blast
  next
    case False
    then have "ok = False"
      using Cons.prems ff rec by (auto split: if_splits)
    from Cons.IH [OF rec [unfolded this]]
    obtain pre it post pre' files1 y1 r' h' y2 where
      d: "rest = pre @ it # post" "fetch_loop ff pre x1 = (pre', files1, True, y1)"
         "ff it y1 = ((False, r', h'), y2)" "has_url it"
      by blast
    have "\<exists>p f. fetch_loop ff (item # pre) x = (p, f, True, y1)"
      using False ff d(2) by (auto split: if_splits)
    then obtain p f where "fetch_loop ff (item # pre) x = (p, f, True, y1)" by blast
    moreover have "item # rest = (item # pre) @ it # post" using d(1) by simp
    ultimately show ?thesis using d(3,4) by blast
  qed
qed

lemma toy_items:
  "toy_fetch_file local_a log = ((True, VStr ''a.csv'', VStr ''sha1 of a.csv''), log @ [''a.csv''])"
  "toy_fetch_file remote_b log = ((True, VStr ''b.csv'', VStr ''sha1 of b.csv''), log @ [''b.csv''])"
  "toy_fetch_file local_missing log = ((False, VStr ''not found'', VNone), log @ [''x.csv''])"
  "toy_fetch_file remote_missing log = ((False, VStr ''not found'', VNone), log @ [''c.csv''])"
  "has_url local_a = False" "has_url local_missing = False"
  "has_url remote_b = True" "has_url remote_missing = True"
  by (simp_all add: toy_fetch_file_def local_a_def remote_b_def local_missing_def
      remote_missing_def has_url_def dict_get_def)

section \<open>Failures during fetch\<close>

text \<open>
  C5. Let \<^verbatim>\<open>fetch\<close> run its loop (the RawDataset is not fetched yet, or \<^verbatim>\<open>force\<close> is set),
  and let the file list be \<open>pre @ item # post\<close>, where the loop passes \<open>pre\<close> without a
  \<^verbatim>\<open>break\<close> and \<^verbatim>\<open>fetch_file\<close> then fails on \<open>item\<close>.
  \<^item> If \<open>item\<close> has a url, \<^verbatim>\<open>fetch\<close> stops there: it returns \<^verbatim>\<open>False\<close>, \<^verbatim>\<open>fetched_\<close> is
    false, \<open>item\<close> and \<open>post\<close> are as they were, nothing of them is in
    \<^verbatim>\<open>fetched_files_\<close>, and the collaborators' state is the one right after the failed
    call: no item of \<open>post\<close> was attempted.
  \<^item> If \<open>item\<close> has no url, the loop goes on with \<open>post\<close>, and the outcome is the
    one of \<open>post\<close>.
  \<^item> \<^verbatim>\<open>fetch\<close> raises nothing: it returns the flag \<^verbatim>\<open>fetched_\<close>, which is true exactly
    when there is no item with a url on which \<^verbatim>\<open>fetch_file\<close> fails after the loop has
    passed the items before it.
\<close>

theorem fetch_failure_semantics:
  assumes go: "\<not> (fetched D \<and> \<not> force)"
  shows
   "(file_list D = pre @ item # post \<and>
     fetch_loop (fetch_file E) pre x = (pre', files, True, x1) \<and>
     fetch_file E item x1 = ((False, r, h), x2) \<and> has_url item \<longrightarrow>
       fetch E fetch_path force D x =
         (VBool False,
          D\<lparr>file_list := pre' @ item # post, fetched := False, fetched_files := files\<rparr>, x2))
    \<and> (file_list D = pre @ item # post \<and>
     fetch_loop (fetch_file E) pre x = (pre', files, True, x1) \<and>
     fetch_file E item x1 = ((False, r, h), x2) \<and> \<not> has_url item \<and>
     fetch_loop (fetch_file E) post x2 = (post', files', ok, x3) \<longrightarrow>
       fetch E fetch_path force D x =
         (VBool ok,
          D\<lparr>file_list := pre' @ item # post', fetched := ok, fetched_files := files @ files'\<rparr>,
          x3))
    \<and> (\<exists>D' x'. fetch E fetch_path force D x = (VBool (fetched D'), D', x') \<and>
         (fetched D' \<longleftrightarrow>
            \<not> (\<exists>p i q p' fs y1 r' h' y2.
                  file_list D = p @ i # q \<and>
                  fetch_loop (fetch_file E) p x = (p', fs, True, y1) \<and>
                  fetch_file E i y1 = ((False, r', h'), y2) \<and> has_url i)))"
proof (intro conjI impI)
  assume "file_list D = pre @ item # post \<and>
     fetch_loop (fetch_file E) pre x = (pre', files, True, x1) \<and>
     fetch_file E item x1 = ((False, r, h), x2) \<and> has_url item"
  then show "fetch E fetch_path force D x =
         (VBool False,
          D\<lparr>file_list := pre' @ item # post, fetched := False, fetched_files := files\<rparr>, x2)"
    using go by (simp add: fetch_def fetch_loop_abort)
next
  assume h: "file_list D = pre @ item # post \<and>
     fetch_loop (fetch_file E) pre x = (pre', files, True, x1) \<and>
     fetch_file E item x1 = ((False, r, h), x2) \<and> \<not> has_url item \<and>
     fetch_loop (fetch_file E) post x2 = (post', files', ok, x3)"
  then have "fetch_loop (fetch_file E) (pre @ item # post) x =
             (pre' @ item # post', files @ files', ok, x3)"
    by (intro fetch_loop_local_failure) auto
  then show "fetch E fetch_path force D x =
         (VBool ok,
          D\<lparr>file_list := pre' @ item # post', fetched := ok, fetched_files := files @ files'\<rparr>,
          x3)"
    using go h by (simp add: fetch_def)
next
  obtain items fs ok x' where l: "fetch_loop (fetch_file E) (file_list D) x = (items, fs, ok, x')"
    by (metis prod.exhaust)
  let ?D' = "D\<lparr>file_list := items, fetched := ok, fetched_files := fs\<rparr>"
  let ?B = "\<exists>p i q p' fs y1 r' h' y2.
                  file_list D = p @ i # q \<and>
                  fetch_loop (fetch_file E) p x = (p', fs, True, y1) \<and>
                  fetch_file E i y1 = ((False, r', h'), y2) \<and> has_url i"
  have f: "fetch E fetch_path force D x = (VBool (fetched ?D'), ?D', x')"
    using go l by (simp add: fetch_def)
  have "ok \<longleftrightarrow> \<not> ?B"
  proof
    assume ok
    show "\<not> ?B"
    proof
      assume ?B
      then obtain p i q p' fs' y1 r' h' y2 where
        "file_list D = p @ i # q" "fetch_loop (fetch_file E) p x = (p', fs', True, y1)"
        "fetch_file E i y1 = ((False, r', h'), y2)" "has_url i"
        by blast
      then have "fetch_loop (fetch_file E) (file_list D) x = (p' @ i # q, fs', False, y2)"
        by (simp add: fetch_loop_abort)
      with l \<open>ok\<close> show False by simp
    qed
  next
    assume "\<not> ?B"
    show ok
    proof (rule ccontr)
      assume "\<not> ok"
      with l have "fetch_loop (fetch_file E) (file_list D) x = (items, fs, False, x')" by simp
      from fetch_loop_incomplete [OF this] \<open>\<not> ?B\<close> show False by blast
    qed
  qed
  then have "fetched ?D' \<longleftrightarrow> \<not> ?B" by simp
  with f show "\<exists>D' x'. fetch E fetch_path force D x = (VBool (fetched D'), D', x') \<and>
         (fetched D' \<longleftrightarrow> \<not> ?B)"
    by blast
qed


theorem fetch_failure_semantics_witness:
  "\<not> (fetched toy \<and> \<not> False) \<and>
   has_url remote_missing \<and> \<not> has_url local_missing \<and>
   fst (fst (fetch_file toy_env remote_missing [''a.csv'', ''x.csv''])) = False \<and>
   fetch toy_env None False
     (toy\<lparr>file_list := [local_a, local_missing, remote_missing, remote_b]\<rparr>) [] =
     (VBool False,
      toy\<lparr>file_list := [dict_set ''hash_value'' (VStr ''sha1 of a.csv'') local_a, local_missing,
                          remote_missing, remote_b],
          fetched := False, fetched_files := [VStr ''a.csv'']\<rparr>,
      [''a.csv'', ''x.csv'', ''c.csv'']) \<and>
   fst (fst (fetch_file toy_env local_missing [''a.csv''])) = False \<and>
   fetch toy_env None False (toy\<lparr>file_list := [local_a, local_missing, remote_b]\<rparr>) [] =
     (VBool True,
      toy\<lparr>file_list := [dict_set ''hash_value'' (VStr ''sha1 of a.csv'') local_a, local_missing,
                          dict_set ''hash_value'' (VStr ''sha1 of b.csv'') remote_b],
          fetched := True, fetched_files := [VStr ''a.csv'', VStr ''b.csv'']\<rparr>,
      [''a.csv'', ''x.csv'', ''b.csv''])"
proof -
  have go: "\<not> (fetched (toy\<lparr>file_list := l\<rparr>) \<and> \<not> False)" for l
    by (simp add: toy_simps)
  note abort = fetch_failure_semantics [where E = toy_env and x = "[]" and force = False
      and D = "toy\<lparr>file_list := [local_a, local_missing, remote_missing, remote_b]\<rparr>"
      and pre = "[local_a, local_missing]" and item = remote_missing and post = "[remote_b]"
      and fetch_path = None, OF go, THEN conjunct1]
  note continue = fetch_failure_semantics [where E = toy_env and x = "[]" and force = False
      and D = "toy\<lparr>file_list := [local_a, local_missing, remote_b]\<rparr>"
      and pre = "[local_a]" and item = local_missing and post = "[remote_b]"
      and fetch_path = None, OF go, THEN conjunct2, THEN conjunct1]
  show ?thesis
    using abort continue
    by (simp add: toy_simps toy_env_simps toy_items)
qed

section \<open>Fetching what is fetched already\<close>

text \<open>
  C9. On a RawDataset whose \<^verbatim>\<open>fetched_\<close> is true, \<^verbatim>\<open>fetch(force=False)\<close> changes neither
  the RawDataset nor the collaborators' state, as the claim says; but its bare
  \<^verbatim>\<open>return\<close> returns \<^verbatim>\<open>None\<close> and not the status \<^verbatim>\<open>True\<close> that the last line of the
  method returns on the other path.
\<close>

theorem fetch_already_fetched_returns_none:
  "fetch toy_env None False (toy\<lparr>fetched := True\<rparr>) [] = (VNone, toy\<lparr>fetched := True\<rparr>, []) \<and>
   VNone \<noteq> VBool (fetched (toy\<lparr>fetched := True\<rparr>))"
  by (simp add: fetch_def)

section \<open>Unpacking after a failed fetch\<close>

lemma fetch_frame:
  "fetch E fetch_path force D x = (r, D1, x1) \<Longrightarrow>
   name D1 = name D \<and> unpacked D1 = unpacked D \<and> unpack_path D1 = unpack_path D \<and>
   load_function D1 = load_function D \<and> dataset_dir D1 = dataset_dir D"
  by (auto simp: fetch_def Let_def split: if_splits prod.splits)

lemma unpack_loop_append:
  "unpack_loop u (xs @ ys) dst x =
     (case unpack_loop u xs dst x of
        (None, x1) \<Rightarrow> unpack_loop u ys dst x1
      | (Some e, x1) \<Rightarrow> (Some e, x1))"
  by (induction xs arbitrary: x) (auto split: prod.splits option.splits)

text \<open>
  C10. \<^verbatim>\<open>unpack\<close> on a RawDataset that is not fetched calls \<^verbatim>\<open>fetch()\<close>. When that
  fetch leaves \<^verbatim>\<open>fetched_\<close> false, and the RawDataset is not unpacked yet or \<^verbatim>\<open>force\<close>
  is set, the unpacker is run over the \<^verbatim>\<open>fetched_files_\<close> that the failed fetch has
  left; when it raises nothing, \<^verbatim>\<open>unpack\<close> returns the target directory, with
  \<^verbatim>\<open>unpacked_\<close> true, \<^verbatim>\<open>unpack_path_\<close> recorded and \<^verbatim>\<open>fetched_\<close> still false.
\<close>

theorem unpack_after_failed_fetch:
  assumes "\<not> fetched D"
    and "fetch E None False D x = (r, D1, x1)"
    and "\<not> fetched D1"
    and "\<not> unpacked D \<or> force"
    and "dst = (case upath of None \<Rightarrow> path_join (interim_data_path E) (name D) | Some p \<Rightarrow> p)"
    and "unpack_loop (fetch_unpack E) (fetched_files D1) dst x1 = (None, x2)"
  shows "\<exists>D'. unpack E upath force D x = (Inr (Some dst), D', x2) \<and>
              D' = D1\<lparr>unpacked := True, unpack_path := Some dst\<rparr> \<and>
              unpacked D' \<and> \<not> fetched D'"
proof -
  from fetch_frame [OF assms(2)] have fr: "name D1 = name D" "unpacked D1 = unpacked D"
    by simp_all
  have dst: "(case upath of None \<Rightarrow> path_join (interim_data_path E) (name D1) | Some p \<Rightarrow> p) = dst"
    using fr(1) assms(5) by (simp split: option.splits)
  have skip: "\<not> (unpacked D1 \<and> \<not> force)"
    using fr(2) assms(4) by simp
  have "unpack E upath force D x =
        (Inr (Some dst), D1\<lparr>unpacked := True, unpack_path := Some dst\<rparr>, x2)"
    using assms(1,2,6) skip by (auto simp: unpack_def dst)
  then show ?thesis using assms(3) by simp
qed

theorem unpack_after_failed_fetch_witness:
  "\<not> fetched (toy\<lparr>file_list := [local_a, remote_missing]\<rparr>) \<and>
   fetch toy_env None False (toy\<lparr>file_list := [local_a, remote_missing]\<rparr>) [] =
     (VBool False,
      toy\<lparr>file_list := [dict_set ''hash_value'' (VStr ''sha1 of a.csv'') local_a, remote_missing],
          fetched := False, fetched_files := [VStr ''a.csv'']\<rparr>,
      [''a.csv'', ''c.csv'']) \<and>
   (\<exists>D'. unpack toy_env None False (toy\<lparr>file_list := [local_a, remote_missing]\<rparr>) [] =
           (Inr (Some ''interim/toy''), D', [''a.csv'', ''c.csv'', ''interim/toy/a.csv'']) \<and>
         D' = toy\<lparr>file_list := [dict_set ''hash_value'' (VStr ''sha1 of a.csv'') local_a,
                                  remote_missing],
                  fetched := False, fetched_files := [VStr ''a.csv''],
                  unpacked := True, unpack_path := Some ''interim/toy''\<rparr> \<and>
         unpacked D' \<and> \<not> fetched D')"
proof -
  let ?D = "toy\<lparr>file_list := [local_a, remote_missing]\<rparr>"
  let ?D1 = "toy\<lparr>file_list := [dict_set ''hash_value'' (VStr ''sha1 of a.csv'') local_a, remote_missing],
          fetched := False, fetched_files := [VStr ''a.csv'']\<rparr>"
  have 1: "\<not> fetched ?D" by (simp add: toy_simps)
  have 2: "fetch toy_env None False ?D [] = (VBool False, ?D1, [''a.csv'', ''c.csv''])"
    by (simp add: fetch_def toy_simps toy_env_simps toy_items)
  have 3: "\<not> fetched ?D1" by simp
  have 4: "\<not> unpacked ?D \<or> False" by (simp add: toy_simps)
  have 5: "''interim/toy'' =
           (case None of None \<Rightarrow> path_join (interim_data_path toy_env) (name ?D) | Some p \<Rightarrow> p)"
    by (simp add: path_join_def toy_simps toy_env_simps)
  have 6: "unpack_loop (fetch_unpack toy_env) (fetched_files ?D1) ''interim/toy'' [''a.csv'', ''c.csv'']
           = (None, [''a.csv'', ''c.csv'', ''interim/toy/a.csv''])"
    by (simp add: toy_env_simps toy_unpack_def)
  show ?thesis
    using 1 2 unpack_after_failed_fetch [OF 1 2 3 4 5 6] by simp
qed

section \<open>When the stage flags are set\<close>

text \<open>
  What \<^verbatim>\<open>unpack\<close> does when it runs its loop, with \<open>Df\<close> and \<open>xf\<close> the RawDataset and the
  collaborators' state that the fetch stage has left: those of the caller when the
  RawDataset is fetched, those after the implicit \<^verbatim>\<open>self.fetch()\<close> otherwise.
\<close>

lemma fetch_stage_frame:
  assumes "(Df, xf) = (if fetched D then (D, x) else snd (fetch E None False D x))"
  shows "name Df = name D \<and> unpacked Df = unpacked D"
proof (cases "fetched D")
  case True
  with assms show ?thesis by simp
next
  case False
  with assms have "fetch E None False D x = (fst (fetch E None False D x), Df, xf)"
    by (metis prod.collapse)
  from fetch_frame [OF this] show ?thesis by simp
qed

lemma unpack_runs_loop:
  assumes "(Df, xf) = (if fetched D then (D, x) else snd (fetch E None False D x))"
    and "\<not> unpacked D \<or> force"
    and "dst = (case upath of None \<Rightarrow> path_join (interim_data_path E) (name D) | Some p \<Rightarrow> p)"
  shows "unpack E upath force D x =
         (case unpack_loop (fetch_unpack E) (fetched_files Df) dst xf of
            (Some e, x2) \<Rightarrow> (Inl e, Df, x2)
          | (None, x2) \<Rightarrow> (Inr (Some dst), Df\<lparr>unpacked := True, unpack_path := Some dst\<rparr>, x2))"
proof -
  note fr = fetch_stage_frame [OF assms(1)]
  have dst: "(case upath of None \<Rightarrow> path_join (interim_data_path E) (name Df) | Some p \<Rightarrow> p) = dst"
    using fr assms(3) by (simp split: option.splits)
  have skip: "\<not> (unpacked Df \<and> \<not> force)"
    using fr assms(2) by simp
  have pre: "(if \<not> fetched D then snd (fetch E None False D x) else (D, x)) = (Df, xf)"
    using assms(1) by (simp split: if_splits)
  show ?thesis
    unfolding unpack_def pre using skip by (auto simp: dst Let_def)
qed

text \<open>
  C8, as the code has it.
  \<^item> When \<^verbatim>\<open>fetch\<close> runs its loop and leaves \<^verbatim>\<open>fetched_\<close> true, then for every item of
    the file list that has a url the loop has passed the items before it and
    \<^verbatim>\<open>fetch_file\<close> has succeeded on it. (Items without a url may have failed; a failed
    item with a url leaves the flag false.)
  \<^item> When \<^verbatim>\<open>unpack\<close> runs its loop (the RawDataset is not unpacked yet, or \<^verbatim>\<open>force\<close> is
    set) and returns, \<^verbatim>\<open>unpacked_\<close> is true and the unpacker has raised nothing on any
    entry of the \<^verbatim>\<open>fetched_files_\<close> that the fetch stage has left, be it an earlier
    \<^verbatim>\<open>fetch\<close> or the implicit one of \<^verbatim>\<open>unpack\<close> on a RawDataset that is not fetched.
  \<^item> When the RawDataset is not unpacked and the unpacker raises on an entry of these
    \<^verbatim>\<open>fetched_files_\<close>, the exception leaves \<^verbatim>\<open>unpack\<close> at once, before the later
    entries are tried, and \<^verbatim>\<open>unpacked_\<close> is still false; the RawDataset is the one that
    the fetch stage has left.
\<close>

theorem stage_flags:
  "(\<not> (fetched D \<and> \<not> force) \<and> fetch E fetch_path force D x = (r, D', x') \<and> fetched D' \<and>
    file_list D = pre @ item # post \<and> has_url item \<and>
    fetch_loop (fetch_file E) pre x = (pre', files, ok, x1) \<longrightarrow>
      ok \<and> fst (fst (fetch_file E item x1)))
   \<and> ((Df, xf) = (if fetched D then (D, x) else snd (fetch E None False D x)) \<and>
    (\<not> unpacked D \<or> force) \<and>
    dst = (case upath of None \<Rightarrow> path_join (interim_data_path E) (name D) | Some p \<Rightarrow> p) \<and>
    unpack E upath force D x = (Inr p, D', x') \<and>
    fetched_files Df = fs @ f # rest \<and>
    unpack_loop (fetch_unpack E) fs dst xf = (e1, y1) \<longrightarrow>
      unpacked D' \<and> e1 = None \<and> fst (fetch_unpack E f dst y1) = None)
   \<and> ((Df, xf) = (if fetched D then (D, x) else snd (fetch E None False D x)) \<and>
    \<not> unpacked D \<and>
    dst = (case upath of None \<Rightarrow> path_join (interim_data_path E) (name D) | Some p \<Rightarrow> p) \<and>
    fetched_files Df = fs @ f # rest \<and>
    unpack_loop (fetch_unpack E) fs dst xf = (None, y1) \<and>
    fetch_unpack E f dst y1 = (Some e, y2) \<longrightarrow>
      unpack E upath force D x = (Inl e, Df, y2) \<and> \<not> unpacked Df)"
  (is "(?H1 \<longrightarrow> ?C1) \<and> (?H2 \<longrightarrow> ?C2) \<and> (?H3 \<longrightarrow> ?C3)")
proof -
  have 1: ?C1 if h: ?H1
  proof -
    obtain st res hv x2 where ff: "fetch_file E item x1 = ((st, res, hv), x2)"
      by (metis prod.exhaust)
    obtain items fs' c y where l: "fetch_loop (fetch_file E) (file_list D) x = (items, fs', c, y)"
      by (metis prod.exhaust)
    from h l have c: c by (auto simp: fetch_def Let_def)
    have "ok \<and> st"
    proof (rule ccontr)
      assume "\<not> (ok \<and> st)"
      then have "\<not> c"
        using h l ff by (auto simp: fetch_loop_append split: prod.splits if_splits)
      with c show False by simp
    qed
    then show ?thesis by (simp add: ff)
  qed
  have 2: ?C2 if h: ?H2
  proof -
    from h have u: "unpack E upath force D x =
         (case unpack_loop (fetch_unpack E) (fetched_files Df) dst xf of
            (Some e, x2) \<Rightarrow> (Inl e, Df, x2)
          | (None, x2) \<Rightarrow> (Inr (Some dst), Df\<lparr>unpacked := True, unpack_path := Some dst\<rparr>, x2))"
      by (intro unpack_runs_loop) auto
    obtain e2 y where f: "fetch_unpack E f dst y1 = (e2, y)" by (metis prod.exhaust)
    from u h have l: "\<exists>y. unpack_loop (fetch_unpack E) (fetched_files Df) dst xf = (None, y)"
      and d: "unpacked D'"
      by (auto split: prod.splits option.splits)
    have "e1 = None \<and> e2 = None"
      using l h f by (auto simp: unpack_loop_append split: prod.splits option.splits)
    with d show ?thesis by (simp add: f)
  qed
  have 3: ?C3 if h: ?H3
  proof -
    from h have u: "unpack E upath force D x =
         (case unpack_loop (fetch_unpack E) (fetched_files Df) dst xf of
            (Some e, x2) \<Rightarrow> (Inl e, Df, x2)
          | (None, x2) \<Rightarrow> (Inr (Some dst), Df\<lparr>unpacked := True, unpack_path := Some dst\<rparr>, x2))"
      by (intro unpack_runs_loop) auto
    from h have "(Df, xf) = (if fetched D then (D, x) else snd (fetch E None False D x))"
      by simp
    from fetch_stage_frame [OF this] h have n: "\<not> unpacked Df" by simp
    have "unpack_loop (fetch_unpack E) (fetched_files Df) dst xf = (Some e, y2)"
      using h by (auto simp: unpack_loop_append)
    with u n show ?thesis by simp
  qed
  from 1 2 3 show ?thesis by blast
qed

theorem stage_flags_witness:
  "fetch toy_env None False (toy\<lparr>file_list := [local_missing, remote_b]\<rparr>) [] =
     (VBool True,
      toy\<lparr>file_list := [local_missing, dict_set ''hash_value'' (VStr ''sha1 of b.csv'') remote_b],
          fetched := True, fetched_files := [VStr ''b.csv'']\<rparr>,
      [''x.csv'', ''b.csv'']) \<and>
   has_url remote_b \<and>
   fst (fst (fetch_file toy_env remote_b [''x.csv''])) \<and>
   \<not> fetched (toy\<lparr>file_list := [local_a, remote_b]\<rparr>) \<and>
   \<not> unpacked (toy\<lparr>file_list := [local_a, remote_b]\<rparr>) \<and>
   unpack toy_env None False (toy\<lparr>file_list := [local_a, remote_b]\<rparr>) [] =
     (Inr (Some ''interim/toy''),
      toy\<lparr>file_list := [dict_set ''hash_value'' (VStr ''sha1 of a.csv'') local_a,
                          dict_set ''hash_value'' (VStr ''sha1 of b.csv'') remote_b],
          fetched := True, fetched_files := [VStr ''a.csv'', VStr ''b.csv''],
          unpacked := True, unpack_path := Some ''interim/toy''\<rparr>,
      [''a.csv'', ''b.csv'', ''interim/toy/a.csv'', ''interim/toy/b.csv'']) \<and>
   fst (fetch_unpack toy_env (VStr ''b.csv'') ''interim/toy''
          [''a.csv'', ''b.csv'', ''interim/toy/a.csv'']) = None \<and>
   toy_unpack_malformed (VStr ''b.csv'') ''interim/toy'' [''a.csv'', ''b.csv'', ''interim/toy/a.csv''] =
     (Some (Raised ''malformed archive''), [''a.csv'', ''b.csv'', ''interim/toy/a.csv'']) \<and>
   (unpack (toy_env\<lparr>fetch_unpack := toy_unpack_malformed\<rparr>) None False
     (toy\<lparr>file_list := [local_a, remote_b]\<rparr>) [] =
     (Inl (Raised ''malformed archive''),
      toy\<lparr>file_list := [dict_set ''hash_value'' (VStr ''sha1 of a.csv'') local_a,
                          dict_set ''hash_value'' (VStr ''sha1 of b.csv'') remote_b],
          fetched := True, fetched_files := [VStr ''a.csv'', VStr ''b.csv'']\<rparr>,
      [''a.csv'', ''b.csv'', ''interim/toy/a.csv'']) \<and>
    \<not> unpacked
       (toy\<lparr>file_list := [dict_set ''hash_value'' (VStr ''sha1 of a.csv'') local_a,
                           dict_set ''hash_value'' (VStr ''sha1 of b.csv'') remote_b],
           fetched := True, fetched_files := [VStr ''a.csv'', VStr ''b.csv'']\<rparr>))"
proof -
  let ?D1 = "toy\<lparr>file_list := [local_missing, remote_b]\<rparr>"
  let ?D1' = "toy\<lparr>file_list := [local_missing, dict_set ''hash_value'' (VStr ''sha1 of b.csv'') remote_b],
          fetched := True, fetched_files := [VStr ''b.csv'']\<rparr>"
  let ?D = "toy\<lparr>file_list := [local_a, remote_b]\<rparr>"
  let ?Df = "toy\<lparr>file_list := [dict_set ''hash_value'' (VStr ''sha1 of a.csv'') local_a,
                          dict_set ''hash_value'' (VStr ''sha1 of b.csv'') remote_b],
          fetched := True, fetched_files := [VStr ''a.csv'', VStr ''b.csv'']\<rparr>"
  let ?E = "toy_env\<lparr>fetch_unpack := toy_unpack_malformed\<rparr>"
  let ?xf = "[''a.csv'', ''b.csv'']"
  let ?y1 = "[''a.csv'', ''b.csv'', ''interim/toy/a.csv'']"
  have f: "fetch toy_env None False ?D1 [] = (VBool True, ?D1', [''x.csv'', ''b.csv''])"
    by (simp add: fetch_def toy_simps toy_env_simps toy_items)
  have url: "has_url remote_b"
    by (simp add: toy_items)
  have nf: "\<not> fetched ?D" and nu: "\<not> unpacked ?D"
    by (simp_all add: toy_simps)
  have g: "fetch toy_env None False ?D [] = (VBool True, ?Df, ?xf)"
    by (simp add: fetch_def toy_simps toy_env_simps toy_items)
  have g': "fetch ?E None False ?D [] = (VBool True, ?Df, ?xf)"
    by (simp add: fetch_def toy_simps toy_env_simps toy_items)
  have u: "unpack toy_env None False ?D [] =
     (Inr (Some ''interim/toy''), ?Df\<lparr>unpacked := True, unpack_path := Some ''interim/toy''\<rparr>,
      [''a.csv'', ''b.csv'', ''interim/toy/a.csv'', ''interim/toy/b.csv''])"
    by (simp add: unpack_def g Let_def toy_simps toy_env_simps toy_unpack_def path_join_def)
  have m: "toy_unpack_malformed (VStr ''b.csv'') ''interim/toy'' ?y1 =
           (Some (Raised ''malformed archive''), ?y1)"
    by (simp add: toy_unpack_malformed_def)
  have h1: "\<not> (fetched ?D1 \<and> \<not> False) \<and>
      fetch toy_env None False ?D1 [] = (VBool True, ?D1', [''x.csv'', ''b.csv'']) \<and>
      fetched ?D1' \<and> file_list ?D1 = [local_missing] @ remote_b # [] \<and> has_url remote_b \<and>
      fetch_loop (fetch_file toy_env) [local_missing] [] = ([local_missing], [], True, [''x.csv''])"
    apply (intro conjI)
    subgoal by (simp add: toy_simps)
    subgoal by (rule f)
    subgoal by simp
    subgoal by simp
    subgoal by (rule url)
    subgoal by (simp add: toy_env_simps toy_items)
    done
  have h2: "(?Df, ?xf) = (if fetched ?D then (?D, []) else snd (fetch toy_env None False ?D [])) \<and>
      (\<not> unpacked ?D \<or> False) \<and>
      ''interim/toy'' =
        (case None of None \<Rightarrow> path_join (interim_data_path toy_env) (name ?D) | Some p \<Rightarrow> p) \<and>
      unpack toy_env None False ?D [] =
        (Inr (Some ''interim/toy''), ?Df\<lparr>unpacked := True, unpack_path := Some ''interim/toy''\<rparr>,
         [''a.csv'', ''b.csv'', ''interim/toy/a.csv'', ''interim/toy/b.csv'']) \<and>
      fetched_files ?Df = [VStr ''a.csv''] @ VStr ''b.csv'' # [] \<and>
      unpack_loop (fetch_unpack toy_env) [VStr ''a.csv''] ''interim/toy'' ?xf = (None, ?y1)"
    apply (intro conjI)
    subgoal by (simp add: g toy_simps)
    subgoal by (simp add: toy_simps)
    subgoal by (simp add: path_join_def toy_simps toy_env_simps)
    subgoal by (rule u)
    subgoal by simp
    subgoal by (simp add: toy_env_simps toy_unpack_def)
    done
  have h3: "(?Df, ?xf) = (if fetched ?D then (?D, []) else snd (fetch ?E None False ?D [])) \<and>
      \<not> unpacked ?D \<and>
      ''interim/toy'' =
        (case None of None \<Rightarrow> path_join (interim_data_path ?E) (name ?D) | Some p \<Rightarrow> p) \<and>
      fetched_files ?Df = [VStr ''a.csv''] @ VStr ''b.csv'' # [] \<and>
      unpack_loop (fetch_unpack ?E) [VStr ''a.csv''] ''interim/toy'' ?xf = (None, ?y1) \<and>
      fetch_unpack ?E (VStr ''b.csv'') ''interim/toy'' ?y1 = (Some (Raised ''malformed archive''), ?y1)"
    apply (intro conjI)
    subgoal by (simp add: g' toy_simps)
    subgoal by (simp add: toy_simps)
    subgoal by (simp add: path_join_def toy_simps toy_env_simps)
    subgoal by simp
    subgoal by (simp add: toy_unpack_malformed_def toy_unpack_def)
    subgoal by (simp add: toy_unpack_malformed_def)
    done
  from stage_flags [THEN conjunct1, THEN mp, OF h1]
  have c1: "fst (fst (fetch_file toy_env remote_b [''x.csv'']))" by simp
  from stage_flags [THEN conjunct2, THEN conjunct1, THEN mp, OF h2]
  have c2: "fst (fetch_unpack toy_env (VStr ''b.csv'') ''interim/toy'' ?y1) = None" by simp
  note c3 = stage_flags [THEN conjunct2, THEN conjunct2, THEN mp, OF h3]
  show ?thesis
    apply (intro conjI)
    subgoal by (rule f)
    subgoal by (rule url)
    subgoal by (rule c1)
    subgoal by (rule nf)
    subgoal by (rule nu)
    subgoal using u by simp
    subgoal by (rule c2)
    subgoal by (rule m)
    subgoal by (rule c3 [THEN conjunct1])
    subgoal by (rule c3 [THEN conjunct2])
    done
qed

text \<open>
  The claim as stated fails for \<^verbatim>\<open>fetch\<close>: a file list whose only file has no url and
  cannot be fetched leaves \<^verbatim>\<open>fetched_\<close> true, with nothing in \<^verbatim>\<open>fetched_files_\<close>.
\<close>

theorem stage_flags_counterexample:
  "fst (fst (fetch_file toy_env local_missing [])) = False \<and>
   fetch toy_env None False (toy\<lparr>file_list := [local_missing]\<rparr>) [] =
     (VBool True, toy\<lparr>file_list := [local_missing], fetched := True, fetched_files := []\<rparr>,
      [''x.csv''])"
  by (simp add: fetch_def toy_simps toy_env_simps toy_items)

section \<open>Dumping a Dataset\<close>

















section \<open>The two records of a dump\<close>


section \<open>Processing twice\<close>







end
